theory Spec2Isabelle
  imports Main
begin

section \<open>MonthDay of js-joda: a shallow embedding of \<open>src/MonthDay.js\<close>\<close>

text \<open>
  The embedding follows \<open>MonthDay.js\<close> function by function. Parameters have the types
  of the JSDoc; a JavaScript number is integer valued here (the specification types every
  month and day as an integer), \<open>null\<close> is \<open>None\<close> for every parameter the source guards
  with \<open>requireNonNull\<close>, and an exception is the left summand of the result.
  Instances of \<open>MonthDay\<close> live in an explicit store, so that object identity
  (\<open>this === obj\<close>, \<open>return temporal\<close>) and the absence of mutation are visible.
\<close>

subsection \<open>Numbers as text\<close>

text \<open>JavaScript's conversion of an integer valued number to a string (decimal digits).\<close>

definition digit_char :: "nat \<Rightarrow> char" where
  "digit_char n = ''0123456789'' ! n"

fun show_nat :: "nat \<Rightarrow> string" where
  "show_nat n = (if n < 10 then [digit_char n] else show_nat (n div 10) @ [digit_char (n mod 10)])"

declare show_nat.simps [simp del]

definition show_int :: "int \<Rightarrow> string" where
  "show_int i = (if i < 0 then CHR ''-'' # show_nat (nat (- i)) else show_nat (nat i))"

subsection \<open>Exceptions\<close>

text \<open>
  The exception classes of \<open>errors.js\<close> and \<open>assert.js\<close>. \<open>NullPointerException\<close> and
  \<open>IllegalArgumentException\<close> carry the parameter name handed to \<open>requireNonNull\<close> and
  \<open>requireInstance\<close>; the others carry their message. \<open>OtherException\<close> stands for
  whatever else a foreign \<open>get\<close> may throw.
\<close>

datatype exn =
    NullPointerException string
  | IllegalArgumentException string
  | DateTimeException string
  | DateTimeParseException string
  | OtherException string

definition requireNonNull :: "'a option \<Rightarrow> string \<Rightarrow> exn + 'a" where
  "requireNonNull v parameterName =
     (case v of None \<Rightarrow> Inl (NullPointerException parameterName) | Some x \<Rightarrow> Inr x)"

subsection \<open>The collaborators of MonthDay\<close>

datatype ChronoField = MONTH_OF_YEAR | DAY_OF_MONTH

text \<open>
  Modelled from the spec: the Field Validator (\<open>ChronoField.checkValidValue\<close>, in
  \<open>temporal/ChronoField.js\<close>, which is not part of the sources at hand). Given a field
  and a candidate integer it confirms that the integer lies within the field's legal
  range, day 1--31 and month 1--12, and fails with a RangeError of the
  \<open>DateTimeException\<close> class otherwise. The specification fixes the class of the failure
  and not its text; the text below names the field and the value.
\<close>

fun field_name :: "ChronoField \<Rightarrow> string" where
  "field_name MONTH_OF_YEAR = ''MonthOfYear''"
| "field_name DAY_OF_MONTH = ''DayOfMonth''"

fun field_minimum :: "ChronoField \<Rightarrow> int" where
  "field_minimum MONTH_OF_YEAR = 1"
| "field_minimum DAY_OF_MONTH = 1"

fun field_maximum :: "ChronoField \<Rightarrow> int" where
  "field_maximum MONTH_OF_YEAR = 12"
| "field_maximum DAY_OF_MONTH = 31"

definition RangeError :: "ChronoField \<Rightarrow> int \<Rightarrow> exn" where
  "RangeError field v =
     DateTimeException (''Invalid value for '' @ field_name field @ '': '' @ show_int v)"

definition checkValidValue :: "ChronoField \<Rightarrow> int \<Rightarrow> exn + unit" where
  "checkValidValue field v =
     (if field_minimum field \<le> v \<and> v \<le> field_maximum field then Inr ()
      else Inl (RangeError field v))"

text \<open>
  Modelled from the spec: the Month Catalog (\<open>Month.js\<close>, not part of the sources at
  hand): an enumeration of the twelve months, each exposing its 1-based ordinal
  (\<open>value\<close>), its display name (\<open>name\<close>) and its maximum valid day count assuming a leap
  year (\<open>maxLength\<close>, the ISO-8601 month lengths with February at 29). \<open>Month.of\<close>
  resolves a month number to its catalog entry and fails with a RangeError outside
  1--12.
\<close>

datatype Month =
    JANUARY | FEBRUARY | MARCH | APRIL | MAY | JUNE
  | JULY | AUGUST | SEPTEMBER | OCTOBER | NOVEMBER | DECEMBER

definition MONTHS :: "Month list" where
  "MONTHS = [JANUARY, FEBRUARY, MARCH, APRIL, MAY, JUNE,
             JULY, AUGUST, SEPTEMBER, OCTOBER, NOVEMBER, DECEMBER]"

fun "value" :: "Month \<Rightarrow> int" where
  "value JANUARY = 1"
| "value FEBRUARY = 2"
| "value MARCH = 3"
| "value APRIL = 4"
| "value MAY = 5"
| "value JUNE = 6"
| "value JULY = 7"
| "value AUGUST = 8"
| "value SEPTEMBER = 9"
| "value OCTOBER = 10"
| "value NOVEMBER = 11"
| "value DECEMBER = 12"

fun name :: "Month \<Rightarrow> string" where
  "name JANUARY = ''JANUARY''"
| "name FEBRUARY = ''FEBRUARY''"
| "name MARCH = ''MARCH''"
| "name APRIL = ''APRIL''"
| "name MAY = ''MAY''"
| "name JUNE = ''JUNE''"
| "name JULY = ''JULY''"
| "name AUGUST = ''AUGUST''"
| "name SEPTEMBER = ''SEPTEMBER''"
| "name OCTOBER = ''OCTOBER''"
| "name NOVEMBER = ''NOVEMBER''"
| "name DECEMBER = ''DECEMBER''"

fun maxLength :: "Month \<Rightarrow> int" where
  "maxLength FEBRUARY = 29"
| "maxLength APRIL = 30"
| "maxLength JUNE = 30"
| "maxLength SEPTEMBER = 30"
| "maxLength NOVEMBER = 30"
| "maxLength _ = 31"

definition Month_of :: "int \<Rightarrow> exn + Month" where
  "Month_of month =
     (if month < 1 \<or> month > 12 then Inl (RangeError MONTH_OF_YEAR month)
      else Inr (MONTHS ! nat (month - 1)))"

subsection \<open>The MonthDay class\<close>

text \<open>
  An instance holds the two fields the constructor assigns, \<open>this._month\<close> and
  \<open>this._day\<close>. The store is the list of all instances created so far; an object
  reference is an index into it, and \<open>new MonthDay(month, dayOfMonth)\<close> appends.
\<close>

record MonthDay =
  field_month :: int
  field_day :: int

type_synonym addr = nat
type_synonym heap = "MonthDay list"

definition new_MonthDay :: "heap \<Rightarrow> int \<Rightarrow> int \<Rightarrow> heap \<times> addr" where
  "new_MonthDay h month dayOfMonth =
     (h @ [\<lparr>field_month = month, field_day = dayOfMonth\<rparr>], length h)"

text \<open>The accessors \<open>monthValue()\<close>, \<open>month()\<close> and \<open>dayOfMonth()\<close> of an instance.\<close>

definition monthValue :: "MonthDay \<Rightarrow> int" where
  "monthValue this = field_month this"

definition month :: "MonthDay \<Rightarrow> exn + Month" where
  "month this = Month_of (field_month this)"

definition dayOfMonth :: "MonthDay \<Rightarrow> int" where
  "dayOfMonth this = field_day this"

text \<open>
  \<open>MonthDay._ofMonthNumber(month, dayOfMonth)\<close>: null check, range check of the day,
  then the comparison with the month's maximum length, then the constructor.
\<close>

definition InvalidCombinationError :: "int \<Rightarrow> Month \<Rightarrow> exn" where
  "InvalidCombinationError d m =
     DateTimeException (''Illegal value for DayOfMonth field, value '' @ show_int d @
                        '' is not valid for month '' @ name m)"

definition MonthDay_ofMonthNumber :: "heap \<Rightarrow> Month option \<Rightarrow> int \<Rightarrow> heap \<times> (exn + addr)" where
  "MonthDay_ofMonthNumber h month_arg d =
     (case requireNonNull month_arg ''month'' of
        Inl e \<Rightarrow> (h, Inl e)
      | Inr m \<Rightarrow>
          (case checkValidValue DAY_OF_MONTH d of
             Inl e \<Rightarrow> (h, Inl e)
           | Inr _ \<Rightarrow>
               if d > maxLength m then (h, Inl (InvalidCombinationError d m))
               else (case new_MonthDay h (value m) d of (h', a) \<Rightarrow> (h', Inr a))))"

text \<open>
  \<open>MonthDay._ofNumberNumber(month, dayOfMonth)\<close>: two null checks, then
  \<open>MonthDay.of(Month.of(month), dayOfMonth)\<close>. The argument \<open>Month.of(month)\<close> is
  evaluated first; the call of \<open>MonthDay.of\<close> then has two arguments of which the first
  is a \<open>Month\<close>, so the overload dispatch reaches \<open>_ofMonthNumber\<close>.
\<close>

definition MonthDay_ofNumberNumber :: "heap \<Rightarrow> int option \<Rightarrow> int option \<Rightarrow> heap \<times> (exn + addr)" where
  "MonthDay_ofNumberNumber h month_arg day_arg =
     (case requireNonNull month_arg ''month'' of
        Inl e \<Rightarrow> (h, Inl e)
      | Inr mn \<Rightarrow>
          (case requireNonNull day_arg ''dayOfMonth'' of
             Inl e \<Rightarrow> (h, Inl e)
           | Inr d \<Rightarrow>
               (case Month_of mn of
                  Inl e \<Rightarrow> (h, Inl e)
                | Inr m \<Rightarrow> MonthDay_ofMonthNumber h (Some m) d)))"

text \<open>
  The overloaded \<open>MonthDay.of\<close>: two arguments with a \<open>Month\<close> first go to
  \<open>_ofMonthNumber\<close>, everything else to \<open>_ofNumberNumber\<close>.
\<close>

datatype of_arguments =
    MonthAndNumber Month int
  | NumberAndNumber "int option" "int option"

fun MonthDay_of :: "heap \<Rightarrow> of_arguments \<Rightarrow> heap \<times> (exn + addr)" where
  "MonthDay_of h (MonthAndNumber m d) = MonthDay_ofMonthNumber h (Some m) d"
| "MonthDay_of h (NumberAndNumber mn d) = MonthDay_ofNumberNumber h mn d"

subsection \<open>Conversion from a temporal object\<close>

text \<open>
  Modelled from the spec: the Date Extraction Protocol (\<open>temporal/TemporalAccessor.js\<close>,
  not part of the sources at hand): an object that exposes queryable fields. Of such an
  object \<open>MonthDay.from\<close> uses \<open>get(field)\<close>, which returns the field's value or throws,
  its conversion to a string, and the name of its constructor (\<open>None\<close> when
  \<open>temporal.constructor\<close> is null or undefined).
\<close>

record TemporalAccessor =
  get :: "ChronoField \<Rightarrow> exn + int"
  toString :: string
  constructor_name :: "string option"

text \<open>
  The values a caller may hand to \<open>from\<close> and \<open>equals\<close>: \<open>null\<close>, \<open>undefined\<close>, numbers,
  strings, objects that are no \<open>TemporalAccessor\<close>, references to \<open>MonthDay\<close> instances
  (\<open>MonthDay\<close> extends \<open>Temporal\<close>, so these are \<open>TemporalAccessor\<close>s), and other
  \<open>TemporalAccessor\<close>s.
\<close>

datatype jsval =
    Null
  | Undefined
  | Num int
  | Str string
  | PlainObject
  | MonthDayRef addr
  | Accessor TemporalAccessor

text \<open>
  JavaScript's unary \<open>+\<close> on a string (\<open>ToNumber\<close>) and the conversion of the resulting
  number back to a string, as \<open>', type ' + +(...)\<close> in \<open>from\<close> performs them. White space
  is trimmed; the empty string is 0; an optionally signed \<open>Infinity\<close> or run of decimal
  digits is that number; every other string is \<open>NaN\<close>. Literals with a fraction, an
  exponent or a radix prefix, and integers beyond the exactly representable range, are
  outside this model: no constructor name has such a form, a class name being an
  identifier.
\<close>

datatype jsnumber = NaN | PosInfinity | NegInfinity | Finite int

definition is_space :: "char \<Rightarrow> bool" where
  "is_space c = (c \<in> set [CHR '' '', CHR 0x09, CHR 0x0A, CHR 0x0B, CHR 0x0C, CHR 0x0D])"

definition trim :: "string \<Rightarrow> string" where
  "trim s = rev (dropWhile is_space (rev (dropWhile is_space s)))"

definition is_digit :: "char \<Rightarrow> bool" where
  "is_digit c = (c \<in> set ''0123456789'')"

definition digit_value :: "char \<Rightarrow> nat" where
  "digit_value c = of_char c - 48"

definition digits_value :: "string \<Rightarrow> nat" where
  "digits_value s = foldl (\<lambda>acc c. 10 * acc + digit_value c) 0 s"

definition unsigned_literal :: "string \<Rightarrow> jsnumber" where
  "unsigned_literal s =
     (if s = ''Infinity'' then PosInfinity
      else if s \<noteq> [] \<and> list_all is_digit s then Finite (int (digits_value s))
      else NaN)"

fun negate :: "jsnumber \<Rightarrow> jsnumber" where
  "negate NaN = NaN"
| "negate PosInfinity = NegInfinity"
| "negate NegInfinity = PosInfinity"
| "negate (Finite i) = Finite (- i)"

definition ToNumber :: "string \<Rightarrow> jsnumber" where
  "ToNumber s =
     (case trim s of
        [] \<Rightarrow> Finite 0
      | c # r \<Rightarrow>
          if c = CHR ''+'' then unsigned_literal r
          else if c = CHR ''-'' then negate (unsigned_literal r)
          else unsigned_literal (c # r))"

fun number_to_string :: "jsnumber \<Rightarrow> string" where
  "number_to_string NaN = ''NaN''"
| "number_to_string PosInfinity = ''Infinity''"
| "number_to_string NegInfinity = ''-Infinity''"
| "number_to_string (Finite i) = show_int i"

text \<open>
  The exception thrown by the \<open>catch\<close> block of \<open>from\<close>:
  \<open>'Unable to obtain MonthDay from TemporalAccessor: ' + temporal + ', type ' +
  +(temporal && temporal.constructor != null ? temporal.constructor.name : '')\<close>.
  The second \<open>+\<close> before the parenthesis is a unary plus applied to the constructor's
  name. \<open>temporal\<close> is an object there, hence truthy.
\<close>

definition ConversionError :: "TemporalAccessor \<Rightarrow> exn" where
  "ConversionError temporal =
     DateTimeException
       (''Unable to obtain MonthDay from TemporalAccessor: '' @ toString temporal @ '', type '' @
        number_to_string
          (ToNumber (case constructor_name temporal of Some n \<Rightarrow> n | None \<Rightarrow> [])))"

text \<open>
  \<open>MonthDay.from(temporal)\<close>: null check, instance check, the identity short-circuit
  for a \<open>MonthDay\<close>, and the \<open>try\<close> block, in which the month is read first, then the day,
  then \<open>MonthDay.of\<close> is called with two numbers; whatever is thrown in the block is
  replaced by the exception above.
\<close>

fun MonthDay_from :: "heap \<Rightarrow> jsval \<Rightarrow> heap \<times> (exn + addr)" where
  "MonthDay_from h Null = (h, Inl (NullPointerException ''temporal''))"
| "MonthDay_from h Undefined = (h, Inl (NullPointerException ''temporal''))"
| "MonthDay_from h (MonthDayRef a) = (h, Inr a)"
| "MonthDay_from h (Accessor temporal) =
     (case get temporal MONTH_OF_YEAR of
        Inl ex \<Rightarrow> (h, Inl (ConversionError temporal))
      | Inr mn \<Rightarrow>
          (case get temporal DAY_OF_MONTH of
             Inl ex \<Rightarrow> (h, Inl (ConversionError temporal))
           | Inr d \<Rightarrow>
               (case MonthDay_of h (NumberAndNumber (Some mn) (Some d)) of
                  (h', Inl ex) \<Rightarrow> (h', Inl (ConversionError temporal))
                | (h', Inr a) \<Rightarrow> (h', Inr a))))"
| "MonthDay_from h _ = (h, Inl (IllegalArgumentException ''temporal''))"

subsection \<open>The current month-day\<close>

text \<open>
  Modelled from the spec: the Clock Source (\<open>Clock.js\<close>, \<open>LocalDate.js\<close> and
  \<open>ZoneId.js\<close>, not part of the sources at hand), which supplies "now" as a date. A
  clock yields one date per reading and counts its readings; \<open>LocalDate.now(clock)\<close>
  is one reading. A fixed clock yields the same date at every reading. The date exposes
  its month as a \<open>Month\<close> and its day-of-month as a number.
\<close>

record LocalDate =
  date_year :: int
  date_month :: Month
  date_dayOfMonth :: int

record Clock =
  dates :: "nat \<Rightarrow> LocalDate"
  readings :: nat

definition LocalDate_now :: "Clock \<Rightarrow> Clock \<times> LocalDate" where
  "LocalDate_now clock = (clock\<lparr>readings := readings clock + 1\<rparr>, dates clock (readings clock))"

definition fixedClockAt :: "LocalDate \<Rightarrow> Clock" where
  "fixedClockAt d = \<lparr>dates = (\<lambda>_. d), readings = 0\<rparr>"

type_synonym ZoneId = string

record System =
  systemDefaultZone :: Clock
  system :: "ZoneId \<Rightarrow> Clock"

text \<open>
  \<open>MonthDay._nowClock(clock)\<close>; the clock after the call is returned with the result.
  \<open>now.month()\<close> is a \<open>Month\<close>, so \<open>MonthDay.of\<close> dispatches to \<open>_ofMonthNumber\<close>.
\<close>

definition MonthDay_nowClock :: "heap \<Rightarrow> Clock option \<Rightarrow> Clock option \<times> heap \<times> (exn + addr)" where
  "MonthDay_nowClock h clock_arg =
     (case requireNonNull clock_arg ''clock'' of
        Inl e \<Rightarrow> (clock_arg, h, Inl e)
      | Inr clock \<Rightarrow>
          (case LocalDate_now clock of
             (clock', now) \<Rightarrow>
               (Some clock', MonthDay_of h (MonthAndNumber (date_month now) (date_dayOfMonth now)))))"

definition MonthDay_now0 :: "System \<Rightarrow> heap \<Rightarrow> Clock option \<times> heap \<times> (exn + addr)" where
  "MonthDay_now0 sys h = MonthDay_nowClock h (Some (systemDefaultZone sys))"

definition MonthDay_nowZoneId :: "System \<Rightarrow> heap \<Rightarrow> ZoneId option \<Rightarrow> Clock option \<times> heap \<times> (exn + addr)" where
  "MonthDay_nowZoneId sys h zone_arg =
     (case requireNonNull zone_arg ''zone'' of
        Inl e \<Rightarrow> (None, h, Inl e)
      | Inr zone \<Rightarrow> MonthDay_nowClock h (Some (system sys zone)))"

datatype now_arguments =
    NoArgument
  | ZoneArgument ZoneId
  | ClockArgument "Clock option"

fun MonthDay_now :: "System \<Rightarrow> heap \<Rightarrow> now_arguments \<Rightarrow> Clock option \<times> heap \<times> (exn + addr)" where
  "MonthDay_now sys h NoArgument = MonthDay_now0 sys h"
| "MonthDay_now sys h (ZoneArgument zone) = MonthDay_nowZoneId sys h (Some zone)"
| "MonthDay_now sys h (ClockArgument clock) = MonthDay_nowClock h clock"

subsection \<open>Parsing\<close>

text \<open>
  Modelled from the spec: the Text Formatter/Parser (\<open>format/DateTimeFormatter.js\<close> and
  \<open>format/DateTimeFormatterBuilder.js\<close>, not part of the sources at hand), which
  converts between a literal textual pattern and field values. A pattern is the
  sequence of the builder's steps: a literal text, or a field printed and parsed as a
  fixed number of decimal digits. Parsing consumes the whole text and accumulates the
  fields; it fails with the formatter's own error, a \<open>DateTimeParseException\<close>. On
  success the query callback is applied to the field accumulator, an object of the Date
  Extraction Protocol whose \<open>get\<close> returns an accumulated field and throws for any other.
  Formatting prints the fields through the same pattern.
\<close>

datatype element = Literal string | Value ChronoField nat

type_synonym DateTimeFormatterBuilder = "element list"

datatype DateTimeFormatter = DateTimeFormatter "element list"

definition new_DateTimeFormatterBuilder :: DateTimeFormatterBuilder where
  "new_DateTimeFormatterBuilder = []"

definition appendLiteral :: "string \<Rightarrow> DateTimeFormatterBuilder \<Rightarrow> DateTimeFormatterBuilder" where
  "appendLiteral literal b = b @ [Literal literal]"

definition appendValue :: "ChronoField \<Rightarrow> nat \<Rightarrow> DateTimeFormatterBuilder \<Rightarrow> DateTimeFormatterBuilder" where
  "appendValue field width b = b @ [Value field width]"

definition toFormatter :: "DateTimeFormatterBuilder \<Rightarrow> DateTimeFormatter" where
  "toFormatter b = DateTimeFormatter b"

type_synonym fields = "ChronoField \<Rightarrow> int option"

fun parse_elements :: "element list \<Rightarrow> string \<Rightarrow> fields \<Rightarrow> fields option" where
  "parse_elements [] text fs = (if text = [] then Some fs else None)"
| "parse_elements (Literal l # es) text fs =
     (if take (length l) text = l then parse_elements es (drop (length l) text) fs else None)"
| "parse_elements (Value f w # es) text fs =
     (if w \<le> length text \<and> list_all is_digit (take w text)
      then parse_elements es (drop w text) (fs(f \<mapsto> int (digits_value (take w text))))
      else None)"

definition accumulator :: "fields \<Rightarrow> TemporalAccessor" where
  "accumulator fs =
     \<lparr>get = (\<lambda>f. case fs f of
                    None \<Rightarrow> Inl (DateTimeException (''Unsupported field: '' @ field_name f))
                  | Some v \<Rightarrow> Inr v),
      toString = ''DateTimeBuilder'',
      constructor_name = Some ''DateTimeBuilder''\<rparr>"

record TemporalQuery =
  query_name :: string
  queryFrom :: "heap \<Rightarrow> jsval \<Rightarrow> heap \<times> (exn + addr)"

definition createTemporalQuery :: "string \<Rightarrow> (heap \<Rightarrow> jsval \<Rightarrow> heap \<times> (exn + addr)) \<Rightarrow> TemporalQuery" where
  "createTemporalQuery n f = \<lparr>query_name = n, queryFrom = f\<rparr>"

text \<open>
  \<open>formatter.parse(text, query)\<close>. A formatter that is handed no query has nothing to
  build the result with; this is the failure \<open>NullPointerException\<close> for its parameter.
\<close>

definition formatter_parse ::
  "DateTimeFormatter \<Rightarrow> heap \<Rightarrow> string \<Rightarrow> TemporalQuery option \<Rightarrow> heap \<times> (exn + addr)" where
  "formatter_parse formatter h text query_arg =
     (case requireNonNull query_arg ''type'' of
        Inl e \<Rightarrow> (h, Inl e)
      | Inr query \<Rightarrow>
          (case formatter of DateTimeFormatter es \<Rightarrow>
             (case parse_elements es text Map.empty of
                None \<Rightarrow> (h, Inl (DateTimeParseException (''Text '' @ text @ '' could not be parsed'')))
              | Some fs \<Rightarrow> queryFrom query h (Accessor (accumulator fs)))))"

definition pad_zero :: "nat \<Rightarrow> string \<Rightarrow> string" where
  "pad_zero w s = replicate (w - length s) (CHR ''0'') @ s"

fun format_elements :: "element list \<Rightarrow> fields \<Rightarrow> string option" where
  "format_elements [] fs = Some []"
| "format_elements (Literal l # es) fs = map_option (\<lambda>r. l @ r) (format_elements es fs)"
| "format_elements (Value f w # es) fs =
     (case fs f of
        None \<Rightarrow> None
      | Some v \<Rightarrow>
          if v < 0 \<or> w < length (show_int v) then None
          else map_option (\<lambda>r. pad_zero w (show_int v) @ r) (format_elements es fs))"

definition formatter_format :: "DateTimeFormatter \<Rightarrow> fields \<Rightarrow> string option" where
  "formatter_format formatter fs = (case formatter of DateTimeFormatter es \<Rightarrow> format_elements es fs)"

text \<open>
  The module level state of \<open>MonthDay.js\<close>: \<open>var PARSER\<close> and the static property
  \<open>MonthDay.FROM\<close>, both undefined until \<open>_init()\<close> has run.
\<close>

record module =
  PARSER :: "DateTimeFormatter option"
  FROM :: "TemporalQuery option"

definition uninitialised :: module where
  "uninitialised = \<lparr>PARSER = None, FROM = None\<rparr>"

definition MonthDay_init :: "module \<Rightarrow> module" where
  "MonthDay_init g =
     g\<lparr>PARSER := Some (toFormatter
                       (appendValue DAY_OF_MONTH 2
                         (appendLiteral ''-''
                           (appendValue MONTH_OF_YEAR 2
                             (appendLiteral ''--'' new_DateTimeFormatterBuilder))))),
       FROM := Some (createTemporalQuery ''MonthDay.FROM'' (\<lambda>h temporal. MonthDay_from h temporal))\<rparr>"

text \<open>
  \<open>MonthDay._parseStringFormatter(text, formatter)\<close> and \<open>MonthDay._parseString(text)\<close>.
  The formatter parameter is typed, so \<open>requireInstance\<close> cannot fail.
\<close>

definition MonthDay_parseStringFormatter ::
  "module \<Rightarrow> heap \<Rightarrow> string option \<Rightarrow> DateTimeFormatter option \<Rightarrow> heap \<times> (exn + addr)" where
  "MonthDay_parseStringFormatter g h text_arg formatter_arg =
     (case requireNonNull text_arg ''text'' of
        Inl e \<Rightarrow> (h, Inl e)
      | Inr text \<Rightarrow>
          (case requireNonNull formatter_arg ''formatter'' of
             Inl e \<Rightarrow> (h, Inl e)
           | Inr formatter \<Rightarrow> formatter_parse formatter h text (FROM g)))"

definition MonthDay_parseString :: "module \<Rightarrow> heap \<Rightarrow> string option \<Rightarrow> heap \<times> (exn + addr)" where
  "MonthDay_parseString g h text_arg = MonthDay_parseStringFormatter g h text_arg (PARSER g)"

datatype parse_arguments =
    OneArgument "string option"
  | TwoArguments "string option" "DateTimeFormatter option"

fun MonthDay_parse :: "module \<Rightarrow> heap \<Rightarrow> parse_arguments \<Rightarrow> heap \<times> (exn + addr)" where
  "MonthDay_parse g h (OneArgument text) = MonthDay_parseString g h text"
| "MonthDay_parse g h (TwoArguments text formatter) = MonthDay_parseStringFormatter g h text formatter"


subsection \<open>Equality\<close>

text \<open>
  \<open>equals(obj)\<close> of the instance at address \<open>this\<close>: \<open>this === obj\<close> holds exactly when
  \<open>obj\<close> is a reference to the same address; \<open>obj instanceof MonthDay\<close> exactly when it is
  a reference to an instance. Both addresses are addresses of the store \<open>h\<close>, a reference
  being obtained from a factory or from the constructor only.
\<close>

fun same_object :: "addr \<Rightarrow> jsval \<Rightarrow> bool" where
  "same_object this (MonthDayRef b) = (this = b)"
| "same_object this _ = False"

definition equals :: "heap \<Rightarrow> addr \<Rightarrow> jsval \<Rightarrow> bool" where
  "equals h this obj =
     (if same_object this obj then True
      else (case obj of
              MonthDayRef other \<Rightarrow>
                monthValue (h ! this) = monthValue (h ! other) \<and>
                dayOfMonth (h ! this) = dayOfMonth (h ! other)
            | _ \<Rightarrow> False))"

subsection \<open>Sequences of calls\<close>

text \<open>
  What a caller can do with the exported class: run \<open>_init\<close>, call the constructor
  \<open>new MonthDay(month, dayOfMonth)\<close>, which assigns its two arguments and checks nothing
  ("Constructor, previously validated"), call a static factory, or call a method of an
  instance it holds. A reference in a call denotes an instance of the store
  (\<open>refs_ok\<close>).
\<close>

datatype call =
    Call_init
  | Call_new int int
  | Call_of of_arguments
  | Call_ofMonthNumber "Month option" int
  | Call_ofNumberNumber "int option" "int option"
  | Call_from jsval
  | Call_now now_arguments
  | Call_parse parse_arguments
  | Call_monthValue addr
  | Call_month addr
  | Call_dayOfMonth addr
  | Call_equals addr jsval

datatype returned =
    Instance addr
  | Number int
  | Boolean bool
  | MonthEnum Month
  | Nothing

definition instance_result :: "module \<Rightarrow> heap \<times> (exn + addr) \<Rightarrow> (module \<times> heap) \<times> (exn + returned)" where
  "instance_result g r = (case r of (h', x) \<Rightarrow> ((g, h'), map_sum id Instance x))"

fun exec :: "System \<Rightarrow> module \<times> heap \<Rightarrow> call \<Rightarrow> (module \<times> heap) \<times> (exn + returned)" where
  "exec sys (g, h) Call_init = ((MonthDay_init g, h), Inr Nothing)"
| "exec sys (g, h) (Call_new m d) = (case new_MonthDay h m d of (h', a) \<Rightarrow> ((g, h'), Inr (Instance a)))"
| "exec sys (g, h) (Call_of args) = instance_result g (MonthDay_of h args)"
| "exec sys (g, h) (Call_ofMonthNumber m d) = instance_result g (MonthDay_ofMonthNumber h m d)"
| "exec sys (g, h) (Call_ofNumberNumber m d) = instance_result g (MonthDay_ofNumberNumber h m d)"
| "exec sys (g, h) (Call_from temporal) = instance_result g (MonthDay_from h temporal)"
| "exec sys (g, h) (Call_now args) = instance_result g (snd (MonthDay_now sys h args))"
| "exec sys (g, h) (Call_parse args) = instance_result g (MonthDay_parse g h args)"
| "exec sys (g, h) (Call_monthValue this) = ((g, h), Inr (Number (monthValue (h ! this))))"
| "exec sys (g, h) (Call_month this) = ((g, h), map_sum id MonthEnum (month (h ! this)))"
| "exec sys (g, h) (Call_dayOfMonth this) = ((g, h), Inr (Number (dayOfMonth (h ! this))))"
| "exec sys (g, h) (Call_equals this obj) = ((g, h), Inr (Boolean (equals h this obj)))"

fun ref_ok :: "heap \<Rightarrow> jsval \<Rightarrow> bool" where
  "ref_ok h (MonthDayRef a) = (a < length h)"
| "ref_ok h _ = True"

fun refs_ok :: "heap \<Rightarrow> call \<Rightarrow> bool" where
  "refs_ok h (Call_from temporal) = ref_ok h temporal"
| "refs_ok h (Call_monthValue this) = (this < length h)"
| "refs_ok h (Call_month this) = (this < length h)"
| "refs_ok h (Call_dayOfMonth this) = (this < length h)"
| "refs_ok h (Call_equals this obj) = (this < length h \<and> ref_ok h obj)"
| "refs_ok h _ = True"

fun constructor_call :: "call \<Rightarrow> bool" where
  "constructor_call (Call_new m d) = True"
| "constructor_call _ = False"

text \<open>
  The states a caller can reach from the empty store, and those it can reach without
  calling the constructor itself.
\<close>

inductive reachable :: "System \<Rightarrow> module \<times> heap \<Rightarrow> bool" for sys :: System where
  start: "reachable sys (uninitialised, [])"
| step: "reachable sys s \<Longrightarrow> refs_ok (snd s) c \<Longrightarrow> reachable sys (fst (exec sys s c))"

inductive reachable_by_factories :: "System \<Rightarrow> module \<times> heap \<Rightarrow> bool" for sys :: System where
  start_f: "reachable_by_factories sys (uninitialised, [])"
| step_f: "reachable_by_factories sys s \<Longrightarrow> refs_ok (snd s) c \<Longrightarrow> \<not> constructor_call c \<Longrightarrow>
           reachable_by_factories sys (fst (exec sys s c))"

text \<open>
  The invariant of the data model, in the specification's words: month 1--12, day
  1--31, and the day no greater than the month's maximum length in a leap year.
\<close>

definition valid_MonthDay :: "MonthDay \<Rightarrow> bool" where
  "valid_MonthDay v =
     (1 \<le> field_month v \<and> field_month v \<le> 12 \<and> 1 \<le> field_day v \<and> field_day v \<le> 31 \<and>
      field_day v \<le> maxLength (MONTHS ! nat (field_month v - 1)))"

text \<open>
  Two notions for the proofs. \<open>grows h res\<close>: the result \<open>res\<close> of a factory called in store
  \<open>h\<close> keeps \<open>h\<close> as it is, adds valid instances only, adds nothing with an exception and
  returns a reference into the new store. \<open>module_ok g\<close>: the query registered in
  \<open>MonthDay.FROM\<close>, if any, is \<open>MonthDay.from\<close>.
\<close>

definition grows :: "heap \<Rightarrow> heap \<times> (exn + addr) \<Rightarrow> bool" where
  "grows h res =
     (case res of (h', r) \<Rightarrow>
        take (length h) h' = h \<and> list_all valid_MonthDay (drop (length h) h') \<and>
        (case r of Inl e \<Rightarrow> h' = h | Inr a \<Rightarrow> a < length h'))"

definition module_ok :: "module \<Rightarrow> bool" where
  "module_ok g = (case FROM g of None \<Rightarrow> True | Some q \<Rightarrow> queryFrom q = MonthDay_from)"

section \<open>Properties\<close>

subsection \<open>The catalog and the two validating factories\<close>

lemma value_MONTHS: "1 \<le> m \<Longrightarrow> m \<le> 12 \<Longrightarrow> value (MONTHS ! nat (m - 1)) = m"
proof -
  assume "1 \<le> m" "m \<le> 12"
  then have "m = 1 \<or> m = 2 \<or> m = 3 \<or> m = 4 \<or> m = 5 \<or> m = 6 \<or>
             m = 7 \<or> m = 8 \<or> m = 9 \<or> m = 10 \<or> m = 11 \<or> m = 12"
    by arith
  then show ?thesis
    by (elim disjE) (simp_all add: MONTHS_def)
qed

lemma maxLength_le_31: "maxLength m \<le> 31"
  by (cases m) simp_all

lemma Month_of_in_range: "1 \<le> m \<Longrightarrow> m \<le> 12 \<Longrightarrow> Month_of m = Inr (MONTHS ! nat (m - 1))"
  by (simp add: Month_of_def)

lemma Month_of_out_of_range: "m < 1 \<or> 12 < m \<Longrightarrow> Month_of m = Inl (RangeError MONTH_OF_YEAR m)"
  by (auto simp add: Month_of_def)

lemma ofMonthNumber_success:
  assumes "1 \<le> d" "d \<le> maxLength m"
  shows "MonthDay_ofMonthNumber h (Some m) d =
           (h @ [\<lparr>field_month = value m, field_day = d\<rparr>], Inr (length h))"
proof -
  have "d \<le> 31" using assms(2) maxLength_le_31 [of m] by linarith
  with assms show ?thesis
    by (simp add: MonthDay_ofMonthNumber_def requireNonNull_def checkValidValue_def new_MonthDay_def)
qed

lemma ofMonthNumber_day_range:
  assumes "d < 1 \<or> 31 < d"
  shows "MonthDay_ofMonthNumber h (Some m) d = (h, Inl (RangeError DAY_OF_MONTH d))"
  using assms by (auto simp add: MonthDay_ofMonthNumber_def requireNonNull_def checkValidValue_def)

lemma ofMonthNumber_invalid_combination:
  assumes "1 \<le> d" "d \<le> 31" "maxLength m < d"
  shows "MonthDay_ofMonthNumber h (Some m) d = (h, Inl (InvalidCombinationError d m))"
  using assms by (simp add: MonthDay_ofMonthNumber_def requireNonNull_def checkValidValue_def)

lemma ofNumberNumber_in_range:
  assumes "1 \<le> m" "m \<le> 12"
  shows "MonthDay_ofNumberNumber h (Some m) (Some d) =
           MonthDay_ofMonthNumber h (Some (MONTHS ! nat (m - 1))) d"
  using assms by (simp add: MonthDay_ofNumberNumber_def requireNonNull_def Month_of_in_range)

lemma ofNumberNumber_month_range:
  assumes "m < 1 \<or> 12 < m"
  shows "MonthDay_ofNumberNumber h (Some m) (Some d) = (h, Inl (RangeError MONTH_OF_YEAR m))"
  using assms by (simp add: MonthDay_ofNumberNumber_def requireNonNull_def Month_of_out_of_range)

text \<open>
  Claim C1. For every month number \<open>m\<close> from 1 to 12 and every day \<open>d\<close> from 1 to the
  maximum length of month \<open>m\<close> in a leap year, \<open>MonthDay.of(m, d)\<close> throws nothing and
  returns an instance whose \<open>monthValue()\<close> is \<open>m\<close> and whose \<open>dayOfMonth()\<close> is \<open>d\<close>. In
  particular \<open>MonthDay.of(2, 29)\<close> succeeds in every store, with the very result of
  \<open>MonthDay.of(Month.FEBRUARY, 29)\<close>; and when the two calls are made one after the
  other, the two instances are equal under \<open>equals\<close>, in both directions.
\<close>

theorem ofNumbers_valid_succeeds:
  "(1 \<le> m \<and> m \<le> 12 \<and> 1 \<le> d \<and> d \<le> maxLength (MONTHS ! nat (m - 1)) \<longrightarrow>
      (\<exists>h' a. MonthDay_of h (NumberAndNumber (Some m) (Some d)) = (h', Inr a) \<and>
               a < length h' \<and> monthValue (h' ! a) = m \<and> dayOfMonth (h' ! a) = d)) \<and>
   (\<exists>h' a. MonthDay_of h (NumberAndNumber (Some 2) (Some 29)) = (h', Inr a) \<and>
            MonthDay_of h (MonthAndNumber FEBRUARY 29) = (h', Inr a) \<and>
            a < length h' \<and> monthValue (h' ! a) = 2 \<and> dayOfMonth (h' ! a) = 29) \<and>
   (\<exists>h1 a h2 b. MonthDay_of h (NumberAndNumber (Some 2) (Some 29)) = (h1, Inr a) \<and>
            MonthDay_of h1 (MonthAndNumber FEBRUARY 29) = (h2, Inr b) \<and>
            equals h2 a (MonthDayRef b) \<and> equals h2 b (MonthDayRef a))"
proof (intro conjI impI)
  assume a: "1 \<le> m \<and> m \<le> 12 \<and> 1 \<le> d \<and> d \<le> maxLength (MONTHS ! nat (m - 1))"
  then have "MonthDay_of h (NumberAndNumber (Some m) (Some d)) =
      (h @ [\<lparr>field_month = m, field_day = d\<rparr>], Inr (length h))"
    by (simp add: ofNumberNumber_in_range ofMonthNumber_success value_MONTHS)
  then show "\<exists>h' a. MonthDay_of h (NumberAndNumber (Some m) (Some d)) = (h', Inr a) \<and>
               a < length h' \<and> monthValue (h' ! a) = m \<and> dayOfMonth (h' ! a) = d"
    by (simp add: monthValue_def dayOfMonth_def)
next
  have feb: "MONTHS ! nat (2 - 1) = FEBRUARY" by (simp add: MONTHS_def)
  have n: "MonthDay_of h (NumberAndNumber (Some 2) (Some 29)) =
      (h @ [\<lparr>field_month = 2, field_day = 29\<rparr>], Inr (length h))"
    using ofNumberNumber_in_range [of 2 h 29] ofMonthNumber_success [of 29 FEBRUARY h] feb by simp
  have m: "MonthDay_of h' (MonthAndNumber FEBRUARY 29) =
      (h' @ [\<lparr>field_month = 2, field_day = 29\<rparr>], Inr (length h'))" for h'
    using ofMonthNumber_success [of 29 FEBRUARY h'] by simp
  show "\<exists>h' a. MonthDay_of h (NumberAndNumber (Some 2) (Some 29)) = (h', Inr a) \<and>
            MonthDay_of h (MonthAndNumber FEBRUARY 29) = (h', Inr a) \<and>
            a < length h' \<and> monthValue (h' ! a) = 2 \<and> dayOfMonth (h' ! a) = 29"
    by (simp only: n m) (simp add: monthValue_def dayOfMonth_def)
  show "\<exists>h1 a h2 b. MonthDay_of h (NumberAndNumber (Some 2) (Some 29)) = (h1, Inr a) \<and>
            MonthDay_of h1 (MonthAndNumber FEBRUARY 29) = (h2, Inr b) \<and>
            equals h2 a (MonthDayRef b) \<and> equals h2 b (MonthDayRef a)"
    by (simp only: n m) (simp add: equals_def monthValue_def dayOfMonth_def nth_append)
qed

theorem ofNumbers_valid_succeeds_witness:
  "(1::int) \<le> 4 \<and> (4::int) \<le> 12 \<and> (1::int) \<le> 30 \<and> (30::int) \<le> maxLength (MONTHS ! nat (4 - 1)) \<and>
   (\<exists>h' a. MonthDay_of [] (NumberAndNumber (Some 4) (Some 30)) = (h', Inr a) \<and>
               a < length h' \<and> monthValue (h' ! a) = 4 \<and> dayOfMonth (h' ! a) = 30)"
  using ofNumbers_valid_succeeds [of 4 30 "[]"] by (simp add: MONTHS_def)

lemma MONTHS_value: "MONTHS ! nat (value m - 1) = m"
  by (cases m) (simp_all add: MONTHS_def)

lemma value_range: "1 \<le> value m \<and> value m \<le> 12"
  by (cases m) simp_all

lemma ofNumberNumber_value:
  "MonthDay_ofNumberNumber h (Some (value m)) (Some d) = MonthDay_ofMonthNumber h (Some m) d"
  using value_range [of m] by (simp add: ofNumberNumber_in_range MONTHS_value)

lemma InvalidCombination_not_Range: "InvalidCombinationError d m \<noteq> RangeError f v"
  by (simp add: InvalidCombinationError_def RangeError_def)

lemma Conversion_not_InvalidCombination: "ConversionError t \<noteq> InvalidCombinationError d m"
  by (simp add: InvalidCombinationError_def ConversionError_def)

text \<open>
  Claim C3. For every month \<open>m\<close> and every day \<open>d\<close> within 1--31 that exceeds the maximum
  length of \<open>m\<close>, both \<open>MonthDay.of(m, d)\<close> and \<open>MonthDay.of(m.value(), d)\<close> throw a
  \<open>DateTimeException\<close> and leave the store as it was. Its message holds the day as a
  decimal number and the month's name, and differs from that of every range failure.
  So fail \<open>MonthDay.of(4, 31)\<close> and \<open>MonthDay.of(2, 30)\<close>.
\<close>

theorem invalid_combination_fails:
  "(1 \<le> d \<and> d \<le> 31 \<and> maxLength m < d \<longrightarrow>
      MonthDay_of h (MonthAndNumber m d) = (h, Inl (InvalidCombinationError d m)) \<and>
      MonthDay_of h (NumberAndNumber (Some (value m)) (Some d)) = (h, Inl (InvalidCombinationError d m))) \<and>
   InvalidCombinationError d m =
      DateTimeException (''Illegal value for DayOfMonth field, value '' @ show_int d @
                         '' is not valid for month '' @ name m) \<and>
   InvalidCombinationError d m \<noteq> RangeError f v \<and>
   MonthDay_of h (NumberAndNumber (Some 4) (Some 31)) =
      (h, Inl (DateTimeException ''Illegal value for DayOfMonth field, value 31 is not valid for month APRIL'')) \<and>
   MonthDay_of h (NumberAndNumber (Some 2) (Some 30)) =
      (h, Inl (DateTimeException ''Illegal value for DayOfMonth field, value 30 is not valid for month FEBRUARY''))"
proof (intro conjI impI)
  assume a: "1 \<le> d \<and> d \<le> 31 \<and> maxLength m < d"
  then show "MonthDay_of h (MonthAndNumber m d) = (h, Inl (InvalidCombinationError d m))"
    by (simp add: ofMonthNumber_invalid_combination)
  from a show "MonthDay_of h (NumberAndNumber (Some (value m)) (Some d)) = (h, Inl (InvalidCombinationError d m))"
    by (simp add: ofNumberNumber_value ofMonthNumber_invalid_combination)
next
  show "InvalidCombinationError d m =
      DateTimeException (''Illegal value for DayOfMonth field, value '' @ show_int d @
                         '' is not valid for month '' @ name m)"
    by (simp add: InvalidCombinationError_def)
  show "InvalidCombinationError d m \<noteq> RangeError f v"
    by (rule InvalidCombination_not_Range)
next
  have s31: "show_int 31 = ''31''" by code_simp
  have "MonthDay_of h (NumberAndNumber (Some (value APRIL)) (Some 31)) = (h, Inl (InvalidCombinationError 31 APRIL))"
    by (simp only: MonthDay_of.simps ofNumberNumber_value) (simp add: ofMonthNumber_invalid_combination)
  then show "MonthDay_of h (NumberAndNumber (Some 4) (Some 31)) =
      (h, Inl (DateTimeException ''Illegal value for DayOfMonth field, value 31 is not valid for month APRIL''))"
    by (simp add: InvalidCombinationError_def s31)
next
  have s30: "show_int 30 = ''30''" by code_simp
  have "MonthDay_of h (NumberAndNumber (Some (value FEBRUARY)) (Some 30)) = (h, Inl (InvalidCombinationError 30 FEBRUARY))"
    by (simp only: MonthDay_of.simps ofNumberNumber_value) (simp add: ofMonthNumber_invalid_combination)
  then show "MonthDay_of h (NumberAndNumber (Some 2) (Some 30)) =
      (h, Inl (DateTimeException ''Illegal value for DayOfMonth field, value 30 is not valid for month FEBRUARY''))"
    by (simp add: InvalidCombinationError_def s30)
qed

theorem invalid_combination_fails_witness:
  "(1::int) \<le> 31 \<and> (31::int) \<le> 31 \<and> maxLength JUNE < 31 \<and>
   MonthDay_of [] (MonthAndNumber JUNE 31) = ([], Inl (InvalidCombinationError 31 JUNE)) \<and>
   MonthDay_of [] (NumberAndNumber (Some 6) (Some 31)) = ([], Inl (InvalidCombinationError 31 JUNE))"
  using invalid_combination_fails [of 31 JUNE "[]"] by simp

text \<open>
  Claim C4. A day outside 1--31 makes \<open>MonthDay.of(m, d)\<close> and
  \<open>MonthDay.of(m.value(), d)\<close> fail with the range failure of the day-of-month field, and
  a month number outside 1--12 makes \<open>MonthDay.of(mn, d)\<close> fail with the range failure of
  the month-of-year field, whatever the day. A range failure is a \<open>DateTimeException\<close>
  and is never the failure of the comparison with the month's length: that comparison
  comes later in \<open>_ofMonthNumber\<close> and is not reached. So fail \<open>MonthDay.of(13, 1)\<close> and
  \<open>MonthDay.of(0, 1)\<close>.
\<close>

theorem range_failure_first:
  "(d < 1 \<or> 31 < d \<longrightarrow>
      MonthDay_of h (MonthAndNumber m d) = (h, Inl (RangeError DAY_OF_MONTH d)) \<and>
      MonthDay_of h (NumberAndNumber (Some (value m)) (Some d)) = (h, Inl (RangeError DAY_OF_MONTH d))) \<and>
   (mn < 1 \<or> 12 < mn \<longrightarrow>
      MonthDay_of h (NumberAndNumber (Some mn) (Some d)) = (h, Inl (RangeError MONTH_OF_YEAR mn))) \<and>
   (\<exists>text. RangeError f v = DateTimeException text) \<and>
   RangeError f v \<noteq> InvalidCombinationError d' m' \<and>
   MonthDay_of h (NumberAndNumber (Some 13) (Some 1)) = (h, Inl (RangeError MONTH_OF_YEAR 13)) \<and>
   MonthDay_of h (NumberAndNumber (Some 0) (Some 1)) = (h, Inl (RangeError MONTH_OF_YEAR 0))"
proof (intro conjI impI)
  assume a: "d < 1 \<or> 31 < d"
  then show "MonthDay_of h (MonthAndNumber m d) = (h, Inl (RangeError DAY_OF_MONTH d))"
    by (simp add: ofMonthNumber_day_range)
  from a show "MonthDay_of h (NumberAndNumber (Some (value m)) (Some d)) = (h, Inl (RangeError DAY_OF_MONTH d))"
    by (simp add: ofNumberNumber_value ofMonthNumber_day_range)
next
  assume "mn < 1 \<or> 12 < mn"
  then show "MonthDay_of h (NumberAndNumber (Some mn) (Some d)) = (h, Inl (RangeError MONTH_OF_YEAR mn))"
    by (simp add: ofNumberNumber_month_range)
next
  show "\<exists>text. RangeError f v = DateTimeException text"
    by (simp add: RangeError_def)
  show "RangeError f v \<noteq> InvalidCombinationError d' m'"
    using InvalidCombination_not_Range [of d' m' f v] by simp
  show "MonthDay_of h (NumberAndNumber (Some 13) (Some 1)) = (h, Inl (RangeError MONTH_OF_YEAR 13))"
    by (simp add: ofNumberNumber_month_range)
  show "MonthDay_of h (NumberAndNumber (Some 0) (Some 1)) = (h, Inl (RangeError MONTH_OF_YEAR 0))"
    by (simp add: ofNumberNumber_month_range)
qed

theorem range_failure_first_witness:
  "((32::int) < 1 \<or> (31::int) < 32) \<and> maxLength APRIL < 32 \<and>
   MonthDay_of [] (MonthAndNumber APRIL 32) = ([], Inl (RangeError DAY_OF_MONTH 32)) \<and>
   MonthDay_of [] (NumberAndNumber (Some 4) (Some 32)) = ([], Inl (RangeError DAY_OF_MONTH 32)) \<and>
   ((13::int) < 1 \<or> (12::int) < 13) \<and>
   MonthDay_of [] (NumberAndNumber (Some 13) (Some 32)) = ([], Inl (RangeError MONTH_OF_YEAR 13))"
  using range_failure_first [of 32 "[]" APRIL 13] by simp

subsection \<open>Conversion, equality, the clock\<close>

lemma from_extraction_failure:
  assumes "get t MONTH_OF_YEAR = Inl ex \<or> (\<exists>mn. get t MONTH_OF_YEAR = Inr mn \<and> get t DAY_OF_MONTH = Inl ex)"
  shows "MonthDay_from h (Accessor t) = (h, Inl (ConversionError t))"
  using assms by auto

lemma from_of_failure:
  assumes "get t MONTH_OF_YEAR = Inr mn" "get t DAY_OF_MONTH = Inr d"
    and "MonthDay_ofNumberNumber h (Some mn) (Some d) = (h', Inl ex)"
  shows "MonthDay_from h (Accessor t) = (h', Inl (ConversionError t))"
  using assms by simp

text \<open>
  Claim C5. \<open>MonthDay.from(x)\<close> of a reference \<open>x\<close> to a \<open>MonthDay\<close> instance returns that
  very reference and leaves the store as it was. Hence whatever \<open>from\<close> returns, \<open>from\<close>
  applied to it returns it again: \<open>from\<close> is idempotent on its own results.
\<close>

theorem from_identity:
  "MonthDay_from h (MonthDayRef a) = (h, Inr a) \<and>
   (MonthDay_from h x = (h', Inr b) \<longrightarrow> MonthDay_from h' (MonthDayRef b) = (h', Inr b)) \<and>
   (MonthDay_from h x = (h', Inr b) \<longrightarrow>
      MonthDay_from (fst (MonthDay_from h x)) (MonthDayRef b) = MonthDay_from h x)"
  by simp

theorem from_identity_witness:
  "MonthDay_from [] (Accessor \<lparr>get = (\<lambda>f. case f of MONTH_OF_YEAR \<Rightarrow> Inr 3 | DAY_OF_MONTH \<Rightarrow> Inr 15),
                              toString = ''2016-03-15'', constructor_name = Some ''LocalDate''\<rparr>)
     = ([\<lparr>field_month = 3, field_day = 15\<rparr>], Inr 0) \<and>
   MonthDay_from [\<lparr>field_month = 3, field_day = 15\<rparr>] (MonthDayRef 0)
     = ([\<lparr>field_month = 3, field_day = 15\<rparr>], Inr 0)"
proof -
  let ?x = "Accessor \<lparr>get = (\<lambda>f. case f of MONTH_OF_YEAR \<Rightarrow> Inr 3 | DAY_OF_MONTH \<Rightarrow> Inr 15),
                              toString = ''2016-03-15'', constructor_name = Some ''LocalDate''\<rparr>"
  have "MonthDay_ofNumberNumber [] (Some 3) (Some 15) = ([\<lparr>field_month = 3, field_day = 15\<rparr>], Inr 0)"
    using ofNumberNumber_in_range [of 3 "[]" 15] ofMonthNumber_success [of 15 MARCH "[]"]
    by (simp add: MONTHS_def)
  then have e: "MonthDay_from [] ?x = ([\<lparr>field_month = 3, field_day = 15\<rparr>], Inr 0)"
    by simp
  with from_identity [of "[]" 0 ?x "[\<lparr>field_month = 3, field_day = 15\<rparr>]" 0]
  show ?thesis by simp
qed

text \<open>
  Claim C6. \<open>equals\<close> is true of the same object; of a reference to a \<open>MonthDay\<close> it is
  true exactly when \<open>monthValue()\<close> and \<open>dayOfMonth()\<close> agree; of \<open>null\<close> and of everything
  that is no \<open>MonthDay\<close> it is false. It is reflexive and symmetric. Two instances made
  by \<open>MonthDay.of(3, 15)\<close> are equal in both directions, and neither equals the one made
  by \<open>MonthDay.of(3, 16)\<close> nor \<open>null\<close>.
\<close>

theorem equals_contract:
  "equals h a (MonthDayRef a) \<and>
   equals h a (MonthDayRef b) =
     (monthValue (h ! a) = monthValue (h ! b) \<and> dayOfMonth (h ! a) = dayOfMonth (h ! b)) \<and>
   \<not> equals h a Null \<and> \<not> equals h a Undefined \<and> \<not> equals h a (Num n) \<and>
   \<not> equals h a (Str s) \<and> \<not> equals h a PlainObject \<and> \<not> equals h a (Accessor t) \<and>
   equals h a (MonthDayRef b) = equals h b (MonthDayRef a) \<and>
   (\<exists>h1 x h2 y h3 z.
      MonthDay_of h (NumberAndNumber (Some 3) (Some 15)) = (h1, Inr x) \<and>
      MonthDay_of h1 (NumberAndNumber (Some 3) (Some 15)) = (h2, Inr y) \<and>
      MonthDay_of h2 (NumberAndNumber (Some 3) (Some 16)) = (h3, Inr z) \<and>
      x \<noteq> y \<and> equals h3 x (MonthDayRef y) \<and> equals h3 y (MonthDayRef x) \<and>
      \<not> equals h3 x (MonthDayRef z) \<and> \<not> equals h3 x Null)"
proof (intro conjI)
  show "equals h a (MonthDayRef a)"
    by (simp add: equals_def)
  show "equals h a (MonthDayRef b) =
     (monthValue (h ! a) = monthValue (h ! b) \<and> dayOfMonth (h ! a) = dayOfMonth (h ! b))"
    by (auto simp add: equals_def)
  show "equals h a (MonthDayRef b) = equals h b (MonthDayRef a)"
    by (auto simp add: equals_def)
  have o: "MonthDay_of k (NumberAndNumber (Some 3) (Some 15)) =
      (k @ [\<lparr>field_month = 3, field_day = 15\<rparr>], Inr (length k))" for k
    using ofNumberNumber_in_range [of 3 k 15] ofMonthNumber_success [of 15 MARCH k]
    by (simp add: MONTHS_def)
  have p: "MonthDay_of k (NumberAndNumber (Some 3) (Some 16)) =
      (k @ [\<lparr>field_month = 3, field_day = 16\<rparr>], Inr (length k))" for k
    using ofNumberNumber_in_range [of 3 k 16] ofMonthNumber_success [of 16 MARCH k]
    by (simp add: MONTHS_def)
  show "\<exists>h1 x h2 y h3 z.
      MonthDay_of h (NumberAndNumber (Some 3) (Some 15)) = (h1, Inr x) \<and>
      MonthDay_of h1 (NumberAndNumber (Some 3) (Some 15)) = (h2, Inr y) \<and>
      MonthDay_of h2 (NumberAndNumber (Some 3) (Some 16)) = (h3, Inr z) \<and>
      x \<noteq> y \<and> equals h3 x (MonthDayRef y) \<and> equals h3 y (MonthDayRef x) \<and>
      \<not> equals h3 x (MonthDayRef z) \<and> \<not> equals h3 x Null"
    by (simp only: o p) (simp add: equals_def monthValue_def dayOfMonth_def nth_append)
qed (simp_all add: equals_def)

text \<open>
  Claim C7. For every clock that is not null, \<open>MonthDay._nowClock(clock)\<close> advances the
  clock by exactly one reading and returns what \<open>_ofMonthNumber\<close> returns for the month
  and the day-of-month of the date read. With a clock fixed at 2021-02-17 the result is
  that of \<open>MonthDay.of(2, 17)\<close>, a new instance with month 2 and day 17. A null clock is
  refused.
\<close>

theorem nowClock_reads_once_and_delegates:
  "MonthDay_nowClock h (Some clock) =
     (Some (clock\<lparr>readings := readings clock + 1\<rparr>),
      MonthDay_ofMonthNumber h (Some (date_month (dates clock (readings clock))))
        (date_dayOfMonth (dates clock (readings clock)))) \<and>
   snd (MonthDay_nowClock h (Some (fixedClockAt \<lparr>date_year = 2021, date_month = FEBRUARY, date_dayOfMonth = 17\<rparr>)))
     = MonthDay_of h (NumberAndNumber (Some 2) (Some 17)) \<and>
   MonthDay_of h (NumberAndNumber (Some 2) (Some 17)) =
     (h @ [\<lparr>field_month = 2, field_day = 17\<rparr>], Inr (length h)) \<and>
   MonthDay_nowClock h None = (None, h, Inl (NullPointerException ''clock''))"
proof (intro conjI)
  show "MonthDay_nowClock h (Some clock) =
     (Some (clock\<lparr>readings := readings clock + 1\<rparr>),
      MonthDay_ofMonthNumber h (Some (date_month (dates clock (readings clock))))
        (date_dayOfMonth (dates clock (readings clock))))"
    by (simp add: MonthDay_nowClock_def requireNonNull_def LocalDate_now_def)
  have n: "MonthDay_of h (NumberAndNumber (Some 2) (Some 17)) = MonthDay_ofMonthNumber h (Some FEBRUARY) 17"
    using ofNumberNumber_in_range [of 2 h 17] by (simp add: MONTHS_def)
  show "snd (MonthDay_nowClock h (Some (fixedClockAt \<lparr>date_year = 2021, date_month = FEBRUARY, date_dayOfMonth = 17\<rparr>)))
     = MonthDay_of h (NumberAndNumber (Some 2) (Some 17))"
    unfolding n by (simp add: MonthDay_nowClock_def requireNonNull_def LocalDate_now_def fixedClockAt_def)
  show "MonthDay_of h (NumberAndNumber (Some 2) (Some 17)) =
     (h @ [\<lparr>field_month = 2, field_day = 17\<rparr>], Inr (length h))"
    unfolding n using ofMonthNumber_success [of 17 FEBRUARY h] by simp
  show "MonthDay_nowClock h None = (None, h, Inl (NullPointerException ''clock''))"
    by (simp add: MonthDay_nowClock_def requireNonNull_def)
qed

text \<open>
  Claim C10. When a temporal object that is no \<open>MonthDay\<close> yields a month and a day
  within their ranges of which the day exceeds the month's maximum length,
  \<open>MonthDay.of\<close> fails inside the \<open>try\<close> block with the failure of the comparison, and
  \<open>MonthDay.from\<close> throws the exception of its \<open>catch\<close> block, which is a different one.
\<close>

theorem from_invalid_combination_rewrapped:
  assumes "get t MONTH_OF_YEAR = Inr (value m)" and "get t DAY_OF_MONTH = Inr d"
    and "1 \<le> d" and "d \<le> 31" and "maxLength m < d"
  shows "MonthDay_of h (NumberAndNumber (Some (value m)) (Some d)) = (h, Inl (InvalidCombinationError d m)) \<and>
         MonthDay_from h (Accessor t) = (h, Inl (ConversionError t)) \<and>
         ConversionError t \<noteq> InvalidCombinationError d m"
proof -
  have i: "MonthDay_ofNumberNumber h (Some (value m)) (Some d) = (h, Inl (InvalidCombinationError d m))"
    using assms(3-5) by (simp add: ofNumberNumber_value ofMonthNumber_invalid_combination)
  then have "MonthDay_from h (Accessor t) = (h, Inl (ConversionError t))"
    using assms(1,2) by (rule from_of_failure [rotated 2])
  with i show ?thesis
    by (simp add: Conversion_not_InvalidCombination)
qed

theorem from_invalid_combination_rewrapped_witness:
  "get \<lparr>get = (\<lambda>f. case f of MONTH_OF_YEAR \<Rightarrow> Inr 4 | DAY_OF_MONTH \<Rightarrow> Inr 31),
        toString = ''fields'', constructor_name = None\<rparr> MONTH_OF_YEAR = Inr (value APRIL) \<and>
   get \<lparr>get = (\<lambda>f. case f of MONTH_OF_YEAR \<Rightarrow> Inr 4 | DAY_OF_MONTH \<Rightarrow> Inr 31),
        toString = ''fields'', constructor_name = None\<rparr> DAY_OF_MONTH = Inr 31 \<and>
   (1::int) \<le> 31 \<and> (31::int) \<le> 31 \<and> maxLength APRIL < 31 \<and>
   MonthDay_from [] (Accessor \<lparr>get = (\<lambda>f. case f of MONTH_OF_YEAR \<Rightarrow> Inr 4 | DAY_OF_MONTH \<Rightarrow> Inr 31),
        toString = ''fields'', constructor_name = None\<rparr>)
     = ([], Inl (DateTimeException ''Unable to obtain MonthDay from TemporalAccessor: fields, type 0''))"
proof -
  let ?t = "\<lparr>get = (\<lambda>f. case f of MONTH_OF_YEAR \<Rightarrow> Inr 4 | DAY_OF_MONTH \<Rightarrow> Inr (31::int)),
        toString = ''fields'', constructor_name = None\<rparr>"
  have c: "ConversionError ?t = DateTimeException ''Unable to obtain MonthDay from TemporalAccessor: fields, type 0''"
    by code_simp
  have "MonthDay_from [] (Accessor ?t) = ([], Inl (ConversionError ?t))"
    using from_invalid_combination_rewrapped [of ?t APRIL 31 "[]"] by simp
  then show ?thesis by (simp add: c)
qed

text \<open>
  Claim C9, at a concrete source: a temporal object whose \<open>get\<close> throws for every
  field, whose text is \<open>10:15\<close> and whose constructor is named \<open>LocalTime\<close>. \<open>MonthDay.from\<close>
  throws, and the message gives the source's text; in place of the name of its type it
  gives \<open>NaN\<close>, the unary plus having turned the name into a number.
\<close>

theorem from_message_type_is_NaN:
  "MonthDay_from [] (Accessor \<lparr>get = (\<lambda>f. Inl (DateTimeException ''Unsupported field'')),
                              toString = ''10:15'', constructor_name = Some ''LocalTime''\<rparr>)
     = ([], Inl (DateTimeException ''Unable to obtain MonthDay from TemporalAccessor: 10:15, type NaN''))"
proof -
  have "ToNumber ''LocalTime'' = NaN" by code_simp
  then show ?thesis by (simp add: ConversionError_def)
qed

subsection \<open>The store only grows, by valid instances\<close>

lemma valid_of_Month:
  assumes "1 \<le> d" "d \<le> maxLength m"
  shows "valid_MonthDay \<lparr>field_month = value m, field_day = d\<rparr>"
  using assms maxLength_le_31 [of m] value_range [of m]
  by (simp add: valid_MonthDay_def MONTHS_value)

lemma grows_ofMonthNumber: "grows h (MonthDay_ofMonthNumber h m d)"
proof (cases m)
  case None
  then show ?thesis
    by (simp add: grows_def MonthDay_ofMonthNumber_def requireNonNull_def)
next
  case (Some mo)
  consider "d < 1 \<or> 31 < d" | "1 \<le> d" "d \<le> 31" "maxLength mo < d" | "1 \<le> d" "d \<le> maxLength mo"
    by linarith
  then show ?thesis
  proof cases
    case 1
    then show ?thesis
      by (simp add: Some ofMonthNumber_day_range grows_def)
  next
    case 2
    then show ?thesis
      by (simp add: Some ofMonthNumber_invalid_combination grows_def)
  next
    case 3
    then show ?thesis
      by (simp add: Some ofMonthNumber_success grows_def valid_of_Month)
  qed
qed

lemma grows_ofNumberNumber: "grows h (MonthDay_ofNumberNumber h m d)"
proof (cases "\<exists>mn dn mo. m = Some mn \<and> d = Some dn \<and> Month_of mn = Inr mo")
  case True
  then obtain mn dn mo where "m = Some mn" "d = Some dn" "Month_of mn = Inr mo"
    by blast
  then have "MonthDay_ofNumberNumber h m d = MonthDay_ofMonthNumber h (Some mo) dn"
    by (simp add: MonthDay_ofNumberNumber_def requireNonNull_def)
  then show ?thesis
    by (simp add: grows_ofMonthNumber)
next
  case False
  then have "\<exists>e. MonthDay_ofNumberNumber h m d = (h, Inl e)"
    by (cases m; cases d; cases "Month_of (the m)")
       (auto simp add: MonthDay_ofNumberNumber_def requireNonNull_def)
  then show ?thesis
    by (auto simp add: grows_def)
qed

lemma grows_of: "grows h (MonthDay_of h args)"
  by (cases args) (simp_all add: grows_ofMonthNumber grows_ofNumberNumber)

lemma grows_from: "ref_ok h x \<Longrightarrow> grows h (MonthDay_from h x)"
proof (cases x)
  case (Accessor t)
  show ?thesis
  proof (cases "\<exists>mn d. get t MONTH_OF_YEAR = Inr mn \<and> get t DAY_OF_MONTH = Inr d")
    case True
    then obtain mn d where g: "get t MONTH_OF_YEAR = Inr mn" "get t DAY_OF_MONTH = Inr d"
      by blast
    obtain h' r where o: "MonthDay_ofNumberNumber h (Some mn) (Some d) = (h', r)"
      by (cases "MonthDay_ofNumberNumber h (Some mn) (Some d)")
    with grows_ofNumberNumber [of h "Some mn" "Some d"] have "grows h (h', r)"
      by simp
    with g o show ?thesis
      by (cases r) (simp_all add: Accessor grows_def)
  next
    case False
    then have "MonthDay_from h (Accessor t) = (h, Inl (ConversionError t))"
      by (cases "get t MONTH_OF_YEAR"; cases "get t DAY_OF_MONTH") auto
    then show ?thesis
      by (simp add: Accessor grows_def)
  qed
qed (simp_all add: grows_def)

lemma grows_nowClock: "grows h (snd (MonthDay_nowClock h c))"
proof (cases c)
  case None
  then show ?thesis
    by (simp add: MonthDay_nowClock_def requireNonNull_def grows_def)
next
  case (Some clock)
  then show ?thesis
    by (simp add: MonthDay_nowClock_def requireNonNull_def LocalDate_now_def grows_ofMonthNumber)
qed

lemma grows_now: "grows h (snd (MonthDay_now sys h args))"
proof (cases args)
  case NoArgument
  then show ?thesis by (simp add: MonthDay_now0_def grows_nowClock)
next
  case (ZoneArgument z)
  then show ?thesis by (simp add: MonthDay_nowZoneId_def requireNonNull_def grows_nowClock)
next
  case (ClockArgument c)
  then show ?thesis by (simp add: grows_nowClock)
qed

lemma grows_formatter_parse:
  assumes "\<forall>q. query = Some q \<longrightarrow> queryFrom q = MonthDay_from"
  shows "grows h (formatter_parse formatter h text query)"
proof (cases query)
  case None
  then show ?thesis by (simp add: formatter_parse_def requireNonNull_def grows_def)
next
  case (Some q)
  with assms have q: "queryFrom q = MonthDay_from" by simp
  obtain es where f: "formatter = DateTimeFormatter es" by (cases formatter)
  show ?thesis
  proof (cases "parse_elements es text Map.empty")
    case None
    then show ?thesis by (simp add: formatter_parse_def requireNonNull_def Some f grows_def)
  next
    case (Some fs)
    have "grows h (MonthDay_from h (Accessor (accumulator fs)))"
      by (rule grows_from) simp
    then show ?thesis
      by (simp add: formatter_parse_def requireNonNull_def \<open>query = Some q\<close> f Some q)
  qed
qed

lemma grows_parse:
  assumes "module_ok g"
  shows "grows h (MonthDay_parse g h args)"
proof -
  have q: "\<forall>q. FROM g = Some q \<longrightarrow> queryFrom q = MonthDay_from"
    using assms by (simp add: module_ok_def split: option.splits)
  have "grows h (MonthDay_parseStringFormatter g h t f)" for t f
    by (cases t; cases f)
       (simp_all add: MonthDay_parseStringFormatter_def requireNonNull_def grows_def [of h "(h, _)"]
          grows_formatter_parse [OF q])
  then show ?thesis
    by (cases args) (simp_all add: MonthDay_parseString_def)
qed

lemma module_ok_init: "module_ok (MonthDay_init g)"
  by (simp add: module_ok_def MonthDay_init_def createTemporalQuery_def)

lemma module_ok_uninitialised: "module_ok uninitialised"
  by (simp add: module_ok_def uninitialised_def)

subsection \<open>Parsing with the default formatter\<close>

lemma PARSER_init:
  "PARSER (MonthDay_init g) =
     Some (DateTimeFormatter [Literal ''--'', Value MONTH_OF_YEAR 2, Literal ''-'', Value DAY_OF_MONTH 2])"
  by (simp add: MonthDay_init_def toFormatter_def appendValue_def appendLiteral_def
        new_DateTimeFormatterBuilder_def)

lemma FROM_init: "\<exists>q. FROM (MonthDay_init g) = Some q \<and> queryFrom q = MonthDay_from"
  by (simp add: MonthDay_init_def createTemporalQuery_def)

lemma is_digit_char: "is_digit c \<Longrightarrow> digit_value c < 10 \<and> digit_char (digit_value c) = c"
  by (auto simp add: digit_char_def is_digit_def digit_value_def)

lemma two_digits:
  assumes "0 \<le> v" "v < 100"
  shows "pad_zero 2 (show_int v) = [digit_char (nat v div 10), digit_char (nat v mod 10)]"
proof (cases "nat v < 10")
  case True
  then have "show_int v = [digit_char (nat v)]"
    using assms by (simp add: show_int_def show_nat.simps)
  with True show ?thesis by (simp add: pad_zero_def digit_char_def)
next
  case False
  have "nat v div 10 < 10" using assms by simp
  then have "show_nat (nat v div 10) = [digit_char (nat v div 10)]"
    by (simp add: show_nat.simps)
  with False have "show_int v = [digit_char (nat v div 10), digit_char (nat v mod 10)]"
    using assms by (simp add: show_int_def show_nat.simps [of "nat v"])
  then show ?thesis by (simp add: pad_zero_def)
qed

lemma two_digits_length:
  assumes "0 \<le> v" "v < 100"
  shows "length (show_int v) \<le> 2"
proof (cases "nat v < 10")
  case True
  then show ?thesis using assms by (simp add: show_int_def show_nat.simps)
next
  case False
  have "nat v div 10 < 10" using assms by simp
  then have "show_nat (nat v div 10) = [digit_char (nat v div 10)]"
    by (simp add: show_nat.simps)
  with False show ?thesis
    using assms by (simp add: show_int_def show_nat.simps [of "nat v"])
qed

lemma digits_value_two: "digits_value [a, b] = 10 * digit_value a + digit_value b"
  by (simp add: digits_value_def)

text \<open>What the default pattern accepts: seven characters, two dashes, two digits, a dash, two digits.\<close>

lemma parse_default_Some:
  assumes "parse_elements [Literal ''--'', Value MONTH_OF_YEAR 2, Literal ''-'', Value DAY_OF_MONTH 2]
             text Map.empty = Some fs"
  shows "\<exists>a b c d. text = [CHR ''-'', CHR ''-'', a, b, CHR ''-'', c, d] \<and>
           is_digit a \<and> is_digit b \<and> is_digit c \<and> is_digit d \<and>
           fs MONTH_OF_YEAR = Some (int (digits_value [a, b])) \<and>
           fs DAY_OF_MONTH = Some (int (digits_value [c, d]))"
proof -
  from assms have l: "length text = 7"
    by (auto split: if_splits)
  then obtain t0 t1 t2 t3 t4 t5 t6 where t: "text = [t0, t1, t2, t3, t4, t5, t6]"
    by (auto simp add: eval_nat_numeral length_Suc_conv)
  from assms show ?thesis
    unfolding t by (auto split: if_splits)
qed


lemma ofNumberNumber_Inr:
  assumes "MonthDay_ofNumberNumber h (Some m) (Some d) = (h', Inr a)"
  shows "1 \<le> m \<and> m \<le> 12 \<and> 1 \<le> d \<and> d \<le> maxLength (MONTHS ! nat (m - 1)) \<and>
         h' = h @ [\<lparr>field_month = m, field_day = d\<rparr>] \<and> a = length h"
proof -
  have m: "1 \<le> m \<and> m \<le> 12"
  proof (rule ccontr)
    assume "\<not> (1 \<le> m \<and> m \<le> 12)"
    then have "m < 1 \<or> 12 < m" by linarith
    from ofNumberNumber_month_range [OF this, of h d] assms show False by simp
  qed
  let ?mo = "MONTHS ! nat (m - 1)"
  from m assms have o: "MonthDay_ofMonthNumber h (Some ?mo) d = (h', Inr a)"
    by (simp add: ofNumberNumber_in_range)
  have d: "1 \<le> d \<and> d \<le> maxLength ?mo"
  proof (rule ccontr)
    assume "\<not> (1 \<le> d \<and> d \<le> maxLength ?mo)"
    then consider "d < 1 \<or> 31 < d" | "1 \<le> d" "d \<le> 31" "maxLength ?mo < d"
      by linarith
    then show False
    proof cases
      case 1
      from ofMonthNumber_day_range [OF this, of h ?mo] o show False by simp
    next
      case 2
      from ofMonthNumber_invalid_combination [OF this, of h] o show False by simp
    qed
  qed
  with m o show ?thesis
    by (simp add: ofMonthNumber_success value_MONTHS)
qed

lemma parse_default:
  "MonthDay_parse (MonthDay_init g) h (OneArgument (Some text)) =
     (case parse_elements [Literal ''--'', Value MONTH_OF_YEAR 2, Literal ''-'', Value DAY_OF_MONTH 2]
             text Map.empty of
        None \<Rightarrow> (h, Inl (DateTimeParseException (''Text '' @ text @ '' could not be parsed'')))
      | Some fs \<Rightarrow> MonthDay_from h (Accessor (accumulator fs)))"
proof -
  obtain q where "FROM (MonthDay_init g) = Some q" "queryFrom q = MonthDay_from"
    using FROM_init by blast
  then show ?thesis
    by (simp add: MonthDay_parseString_def MonthDay_parseStringFormatter_def requireNonNull_def
          PARSER_init formatter_parse_def)
qed

text \<open>
  The pattern prints what it parsed: when the default parse of a text succeeds, the
  pattern applied to the two numbers \<open>monthValue()\<close> and \<open>dayOfMonth()\<close> return gives the
  text back.
\<close>

lemma parse_then_format_values:
  assumes "MonthDay_parse (MonthDay_init g) h (OneArgument (Some text)) = (h', Inr a)"
  shows "a = length h \<and> h' = h @ [h' ! a] \<and> valid_MonthDay (h' ! a) \<and>
         formatter_format
           (DateTimeFormatter [Literal ''--'', Value MONTH_OF_YEAR 2, Literal ''-'', Value DAY_OF_MONTH 2])
           [MONTH_OF_YEAR \<mapsto> monthValue (h' ! a), DAY_OF_MONTH \<mapsto> dayOfMonth (h' ! a)] = Some text"
proof -
  let ?es = "[Literal ''--'', Value MONTH_OF_YEAR 2, Literal ''-'', Value DAY_OF_MONTH 2]"
  from assms obtain fs where fs: "parse_elements ?es text Map.empty = Some fs"
    and f: "MonthDay_from h (Accessor (accumulator fs)) = (h', Inr a)"
    unfolding parse_default by (cases "parse_elements ?es text Map.empty") simp_all
  from parse_default_Some [OF fs] obtain a1 b1 c1 d1 where
    t: "text = [CHR ''-'', CHR ''-'', a1, b1, CHR ''-'', c1, d1]" and
    dg: "is_digit a1" "is_digit b1" "is_digit c1" "is_digit d1" and
    mv: "fs MONTH_OF_YEAR = Some (int (digits_value [a1, b1]))" and
    dv: "fs DAY_OF_MONTH = Some (int (digits_value [c1, d1]))"
    by blast
  let ?m = "int (digits_value [a1, b1])" and ?d = "int (digits_value [c1, d1])"
  from f mv dv have "MonthDay_ofNumberNumber h (Some ?m) (Some ?d) = (h', Inr a)"
    by (cases "MonthDay_ofNumberNumber h (Some ?m) (Some ?d)"; cases "snd (MonthDay_ofNumberNumber h (Some ?m) (Some ?d))")
       (simp_all add: accumulator_def)
  from ofNumberNumber_Inr [OF this] have
    r: "1 \<le> ?m" "?m \<le> 12" "1 \<le> ?d" "?d \<le> maxLength (MONTHS ! nat (?m - 1))"
       "h' = h @ [\<lparr>field_month = ?m, field_day = ?d\<rparr>]" "a = length h"
    by simp_all
  have d31: "?d \<le> 31" using r(4) maxLength_le_31 [of "MONTHS ! nat (?m - 1)"] by linarith
  have obj: "h' ! a = \<lparr>field_month = ?m, field_day = ?d\<rparr>"
    using r(5,6) by simp
  have valid: "valid_MonthDay (h' ! a)"
    unfolding obj using r(1-4) d31 by (simp add: valid_MonthDay_def)
  have nm: "nat ?m = 10 * digit_value a1 + digit_value b1"
    by (simp only: nat_int digits_value_two)
  have nd: "nat ?d = 10 * digit_value c1 + digit_value d1"
    by (simp only: nat_int digits_value_two)
  have dm: "nat ?m div 10 = digit_value a1" "nat ?m mod 10 = digit_value b1"
    unfolding nm using is_digit_char [OF dg(1)] is_digit_char [OF dg(2)] by simp_all
  have dd: "nat ?d div 10 = digit_value c1" "nat ?d mod 10 = digit_value d1"
    unfolding nd using is_digit_char [OF dg(3)] is_digit_char [OF dg(4)] by simp_all
  have "pad_zero 2 (show_int ?m) = [digit_char (nat ?m div 10), digit_char (nat ?m mod 10)]"
    using r(1,2) by (intro two_digits) simp_all
  then have pm: "pad_zero 2 (show_int ?m) = [a1, b1]"
    unfolding dm using is_digit_char [OF dg(1)] is_digit_char [OF dg(2)] by simp
  have "pad_zero 2 (show_int ?d) = [digit_char (nat ?d div 10), digit_char (nat ?d mod 10)]"
    using r(3) d31 by (intro two_digits) simp_all
  then have pd: "pad_zero 2 (show_int ?d) = [c1, d1]"
    unfolding dd using is_digit_char [OF dg(3)] is_digit_char [OF dg(4)] by simp
  have lm: "length (show_int ?m) \<le> 2" using two_digits_length [of ?m] r(1,2) by simp
  have ld: "length (show_int ?d) \<le> 2" using two_digits_length [of ?d] r(3) d31 by simp
  have "formatter_format (DateTimeFormatter ?es) [MONTH_OF_YEAR \<mapsto> monthValue (h' ! a), DAY_OF_MONTH \<mapsto> dayOfMonth (h' ! a)] = Some text"
    unfolding obj t using lm ld r(1,3)
    by (simp add: formatter_format_def monthValue_def dayOfMonth_def pm pd)
  with r(5,6) obj valid show ?thesis by simp
qed






subsection \<open>What a call does to the store\<close>

lemma grows_instance_result:
  assumes "grows h res"
  shows "\<exists>h' r. instance_result g res = ((g, h'), r) \<and> take (length h) h' = h \<and>
           list_all valid_MonthDay (drop (length h) h') \<and>
           (\<forall>a. r = Inr (Instance a) \<longrightarrow> a < length h') \<and>
           (\<forall>e. r = Inl e \<longrightarrow> h' = h)"
  using assms by (cases res; cases "snd res") (auto simp add: instance_result_def grows_def)

lemma exec_effect:
  assumes "module_ok g" "refs_ok h c"
  shows "\<exists>g' h' r. exec sys (g, h) c = ((g', h'), r) \<and> module_ok g' \<and> take (length h) h' = h \<and>
           (\<not> constructor_call c \<longrightarrow> list_all valid_MonthDay (drop (length h) h')) \<and>
           (\<forall>a. r = Inr (Instance a) \<longrightarrow> a < length h') \<and>
           (\<forall>e. r = Inl e \<longrightarrow> h' = h)"
proof (cases c)
  case Call_init
  then show ?thesis by (simp add: module_ok_init)
next
  case (Call_new m d)
  with assms(1) show ?thesis by (simp add: new_MonthDay_def)
next
  case (Call_of args)
  with grows_instance_result [OF grows_of [of h args], of g] assms(1) show ?thesis by auto
next
  case (Call_ofMonthNumber m d)
  with grows_instance_result [OF grows_ofMonthNumber [of h m d], of g] assms(1) show ?thesis by auto
next
  case (Call_ofNumberNumber m d)
  with grows_instance_result [OF grows_ofNumberNumber [of h m d], of g] assms(1) show ?thesis by auto
next
  case (Call_from x)
  with assms(2) have "ref_ok h x" by simp
  from grows_instance_result [OF grows_from [OF this], of g] Call_from assms(1) show ?thesis by auto
next
  case (Call_now args)
  with grows_instance_result [OF grows_now [of h sys args], of g] assms(1) show ?thesis by auto
next
  case (Call_parse args)
  with grows_instance_result [OF grows_parse [OF assms(1), of h args], of g] assms(1) show ?thesis by auto
next
  case (Call_month this)
  with assms(1) show ?thesis by (cases "month (h ! this)") simp_all
qed (use assms(1) in simp_all)

lemma reachable_module_ok:
  assumes "reachable sys s"
  shows "module_ok (fst s)"
  using assms
proof (induction rule: reachable.induct)
  case start
  show ?case by (simp add: module_ok_uninitialised)
next
  case (step s c)
  obtain g h where s: "s = (g, h)" by (cases s)
  with step have "module_ok g" "refs_ok h c" by simp_all
  from exec_effect [OF this, of sys] show ?case
    by (auto simp add: s)
qed

lemma reachable_by_factories_reachable:
  assumes "reachable_by_factories sys s"
  shows "reachable sys s"
  using assms
  by (induction rule: reachable_by_factories.induct) (auto intro: reachable.intros)

lemma reachable_by_factories_valid:
  assumes "reachable_by_factories sys s"
  shows "list_all valid_MonthDay (snd s)"
  using assms
proof (induction rule: reachable_by_factories.induct)
  case start_f
  show ?case by simp
next
  case (step_f s c)
  obtain g h where s: "s = (g, h)" by (cases s)
  from step_f(1) have "module_ok (fst s)"
    by (intro reachable_module_ok reachable_by_factories_reachable)
  with s step_f have ok: "module_ok g" "list_all valid_MonthDay h" "refs_ok h c" "\<not> constructor_call c"
    by simp_all
  from exec_effect [OF ok(1) ok(3), of sys] ok(4) obtain g' h' r where
    e: "exec sys (g, h) c = ((g', h'), r)" "take (length h) h' = h"
       "list_all valid_MonthDay (drop (length h) h')"
    by blast
  have "h' = take (length h) h' @ drop (length h) h'" by simp
  with e(2) have "h' = h @ drop (length h) h'" by simp
  then have "list_all valid_MonthDay h' =
      (list_all valid_MonthDay h \<and> list_all valid_MonthDay (drop (length h) h'))"
    by (metis list_all_append)
  with ok(2) e show ?case by (simp add: s)
qed

text \<open>
  Claim C2, as the code has it. The constructor is exported with the class and checks
  nothing, so an instance made with it directly holds whatever it was given. Of the
  instances made by the factories the claim holds. First, in every state a caller can
  reach, the constructor included, every call leaves the instances that exist as they
  are, creates nothing when it throws, and, unless it is a call of the constructor,
  creates only instances with a month within 1--12, a day within 1--31 and a day no
  greater than the month's maximum length. Second, in every state reached without
  calling the constructor, every instance of the store is valid in that sense, and
  every reference a further such call returns is to a valid instance of the store.
\<close>

theorem factory_instances_valid:
  "(reachable sys (g, h) \<and> refs_ok h c \<longrightarrow>
      (\<exists>g' h' r. exec sys (g, h) c = ((g', h'), r) \<and> take (length h) h' = h \<and>
         (\<forall>e. r = Inl e \<longrightarrow> h' = h) \<and>
         (\<not> constructor_call c \<longrightarrow> (\<forall>v\<in>set (drop (length h) h'). valid_MonthDay v)))) \<and>
   (reachable_by_factories sys (g, h) \<longrightarrow>
      (\<forall>v\<in>set h. valid_MonthDay v) \<and>
      (refs_ok h c \<and> \<not> constructor_call c \<longrightarrow>
         (\<exists>g' h' r. exec sys (g, h) c = ((g', h'), r) \<and>
            (\<forall>v\<in>set h'. valid_MonthDay v) \<and>
            (\<forall>a. r = Inr (Instance a) \<longrightarrow> a < length h' \<and> valid_MonthDay (h' ! a)))))"
proof (intro conjI impI)
  assume a: "reachable sys (g, h) \<and> refs_ok h c"
  then have "module_ok g" using reachable_module_ok [of sys "(g, h)"] by simp
  from exec_effect [OF this, of h c sys] a
  show "\<exists>g' h' r. exec sys (g, h) c = ((g', h'), r) \<and> take (length h) h' = h \<and>
         (\<forall>e. r = Inl e \<longrightarrow> h' = h) \<and>
         (\<not> constructor_call c \<longrightarrow> (\<forall>v\<in>set (drop (length h) h'). valid_MonthDay v))"
    by (auto simp add: list_all_iff)
next
  assume f: "reachable_by_factories sys (g, h)"
  from reachable_by_factories_valid [OF f] show "\<forall>v\<in>set h. valid_MonthDay v"
    by (simp add: list_all_iff)
  assume c: "refs_ok h c \<and> \<not> constructor_call c"
  have "module_ok g"
    using reachable_module_ok [OF reachable_by_factories_reachable [OF f]] by simp
  from exec_effect [OF this, of h c sys] c obtain g' h' r where
    e: "exec sys (g, h) c = ((g', h'), r)" "\<forall>a. r = Inr (Instance a) \<longrightarrow> a < length h'"
    by blast
  have "reachable_by_factories sys (fst (exec sys (g, h) c))"
    using reachable_by_factories.step_f [OF f, of c] c by simp
  with e(1) have "reachable_by_factories sys (g', h')" by simp
  from reachable_by_factories_valid [OF this] have "\<forall>v\<in>set h'. valid_MonthDay v"
    by (simp add: list_all_iff)
  with e show "\<exists>g' h' r. exec sys (g, h) c = ((g', h'), r) \<and>
            (\<forall>v\<in>set h'. valid_MonthDay v) \<and>
            (\<forall>a. r = Inr (Instance a) \<longrightarrow> a < length h' \<and> valid_MonthDay (h' ! a))"
    by auto
qed


theorem factory_instances_valid_witness:
  "reachable \<lparr>systemDefaultZone = fixedClockAt \<lparr>date_year = 2021, date_month = FEBRUARY, date_dayOfMonth = 17\<rparr>,
              system = (\<lambda>zone. fixedClockAt \<lparr>date_year = 2021, date_month = FEBRUARY, date_dayOfMonth = 17\<rparr>)\<rparr>
     (uninitialised, [\<lparr>field_month = 4, field_day = 31\<rparr>]) \<and>
   refs_ok [\<lparr>field_month = 4, field_day = 31\<rparr>] (Call_of (MonthAndNumber DECEMBER 3)) \<and>
   \<not> constructor_call (Call_of (MonthAndNumber DECEMBER 3)) \<and>
   exec \<lparr>systemDefaultZone = fixedClockAt \<lparr>date_year = 2021, date_month = FEBRUARY, date_dayOfMonth = 17\<rparr>,
              system = (\<lambda>zone. fixedClockAt \<lparr>date_year = 2021, date_month = FEBRUARY, date_dayOfMonth = 17\<rparr>)\<rparr>
     (uninitialised, [\<lparr>field_month = 4, field_day = 31\<rparr>]) (Call_of (MonthAndNumber DECEMBER 3)) =
     ((uninitialised, [\<lparr>field_month = 4, field_day = 31\<rparr>, \<lparr>field_month = 12, field_day = 3\<rparr>]),
      Inr (Instance 1)) \<and>
   valid_MonthDay \<lparr>field_month = 12, field_day = 3\<rparr> \<and>
   reachable_by_factories \<lparr>systemDefaultZone = fixedClockAt \<lparr>date_year = 2021, date_month = FEBRUARY, date_dayOfMonth = 17\<rparr>,
              system = (\<lambda>zone. fixedClockAt \<lparr>date_year = 2021, date_month = FEBRUARY, date_dayOfMonth = 17\<rparr>)\<rparr>
     (MonthDay_init uninitialised, [\<lparr>field_month = 2, field_day = 29\<rparr>]) \<and>
   \<lparr>field_month = 2, field_day = 29\<rparr> \<in> set [\<lparr>field_month = 2, field_day = 29\<rparr>] \<and>
   valid_MonthDay \<lparr>field_month = 2, field_day = 29\<rparr> \<and>
   refs_ok [\<lparr>field_month = 2, field_day = 29\<rparr>] (Call_from (MonthDayRef 0)) \<and>
   \<not> constructor_call (Call_from (MonthDayRef 0)) \<and>
   exec \<lparr>systemDefaultZone = fixedClockAt \<lparr>date_year = 2021, date_month = FEBRUARY, date_dayOfMonth = 17\<rparr>,
              system = (\<lambda>zone. fixedClockAt \<lparr>date_year = 2021, date_month = FEBRUARY, date_dayOfMonth = 17\<rparr>)\<rparr>
     (MonthDay_init uninitialised, [\<lparr>field_month = 2, field_day = 29\<rparr>]) (Call_from (MonthDayRef 0)) =
     ((MonthDay_init uninitialised, [\<lparr>field_month = 2, field_day = 29\<rparr>]), Inr (Instance 0))"
proof -
  let ?sys = "\<lparr>systemDefaultZone = fixedClockAt \<lparr>date_year = 2021, date_month = FEBRUARY, date_dayOfMonth = 17\<rparr>,
              system = (\<lambda>zone. fixedClockAt \<lparr>date_year = 2021, date_month = FEBRUARY, date_dayOfMonth = 17\<rparr>)\<rparr>"
  let ?g = "MonthDay_init uninitialised"
  let ?u = "\<lparr>field_month = 4, field_day = 31\<rparr>"
  let ?v = "\<lparr>field_month = 2, field_day = 29\<rparr>"
  let ?w = "\<lparr>field_month = 12, field_day = 3\<rparr>"
  let ?c = "Call_of (MonthAndNumber DECEMBER 3)"
  let ?d = "Call_from (MonthDayRef 0)"
  have "reachable ?sys (fst (exec ?sys (uninitialised, []) (Call_new 4 31)))"
    by (rule reachable.step [OF reachable.start]) simp
  then have r: "reachable ?sys (uninitialised, [?u])"
    by (simp add: new_MonthDay_def)
  have e: "exec ?sys (uninitialised, [?u]) ?c = ((uninitialised, [?u, ?w]), Inr (Instance 1))"
    using ofMonthNumber_success [of 3 DECEMBER "[?u]"] by (simp add: instance_result_def)
  have c: "refs_ok [?u] ?c" "\<not> constructor_call ?c" by simp_all
  from factory_instances_valid [of ?sys uninitialised "[?u]" ?c] r c e
  have "\<forall>v\<in>set (drop (length [?u]) [?u, ?w]). valid_MonthDay v"
    by fastforce
  then have vw: "valid_MonthDay ?w" by simp
  have "reachable_by_factories ?sys (fst (exec ?sys (uninitialised, []) Call_init))"
    by (rule reachable_by_factories.step_f [OF reachable_by_factories.start_f]) simp_all
  then have f1: "reachable_by_factories ?sys (?g, [])" by simp
  have "reachable_by_factories ?sys (fst (exec ?sys (?g, []) (Call_of (NumberAndNumber (Some 2) (Some 29)))))"
    by (rule reachable_by_factories.step_f [OF f1]) simp_all
  moreover have "MonthDay_ofNumberNumber [] (Some 2) (Some 29) = ([?v], Inr 0)"
    using ofNumberNumber_in_range [of 2 "[]" 29] ofMonthNumber_success [of 29 FEBRUARY "[]"]
    by (simp add: MONTHS_def)
  ultimately have f2: "reachable_by_factories ?sys (?g, [?v])"
    by (simp add: instance_result_def)
  have e2: "exec ?sys (?g, [?v]) ?d = ((?g, [?v]), Inr (Instance 0))"
    by (simp add: instance_result_def)
  have d: "refs_ok [?v] ?d" "\<not> constructor_call ?d" by simp_all
  from factory_instances_valid [of ?sys ?g "[?v]" ?d] f2
  have "\<forall>v\<in>set [?v]. valid_MonthDay v"
    by blast
  then have vv: "valid_MonthDay ?v" by simp
  from r c e vw f2 vv d e2 show ?thesis by simp
qed

text \<open>
  The claim as it stands fails at the constructor: \<open>new MonthDay(4, 31)\<close> in the empty
  store gives an instance a caller observes with \<open>monthValue()\<close> 4 and \<open>dayOfMonth()\<close> 31,
  and April has at most 30 days.
\<close>

theorem constructor_instance_invalid:
  "exec \<lparr>systemDefaultZone = fixedClockAt \<lparr>date_year = 2021, date_month = FEBRUARY, date_dayOfMonth = 17\<rparr>,
          system = (\<lambda>zone. fixedClockAt \<lparr>date_year = 2021, date_month = FEBRUARY, date_dayOfMonth = 17\<rparr>)\<rparr>
     (uninitialised, []) (Call_new 4 31) =
     ((uninitialised, [\<lparr>field_month = 4, field_day = 31\<rparr>]), Inr (Instance 0)) \<and>
   reachable \<lparr>systemDefaultZone = fixedClockAt \<lparr>date_year = 2021, date_month = FEBRUARY, date_dayOfMonth = 17\<rparr>,
          system = (\<lambda>zone. fixedClockAt \<lparr>date_year = 2021, date_month = FEBRUARY, date_dayOfMonth = 17\<rparr>)\<rparr>
     (uninitialised, [\<lparr>field_month = 4, field_day = 31\<rparr>]) \<and>
   monthValue ([\<lparr>field_month = 4, field_day = 31\<rparr>] ! 0) = 4 \<and>
   dayOfMonth ([\<lparr>field_month = 4, field_day = 31\<rparr>] ! 0) = 31 \<and>
   maxLength (MONTHS ! nat (4 - 1)) = 30 \<and>
   \<not> valid_MonthDay ([\<lparr>field_month = 4, field_day = 31\<rparr>] ! 0)"
proof -
  let ?sys = "\<lparr>systemDefaultZone = fixedClockAt \<lparr>date_year = 2021, date_month = FEBRUARY, date_dayOfMonth = 17\<rparr>,
              system = (\<lambda>zone. fixedClockAt \<lparr>date_year = 2021, date_month = FEBRUARY, date_dayOfMonth = 17\<rparr>)\<rparr>"
  have e: "exec ?sys (uninitialised, []) (Call_new 4 31) =
     ((uninitialised, [\<lparr>field_month = 4, field_day = 31\<rparr>]), Inr (Instance 0))"
    by (simp add: new_MonthDay_def)
  have "reachable ?sys (fst (exec ?sys (uninitialised, []) (Call_new 4 31)))"
    by (rule reachable.step [OF reachable.start]) simp
  with e have "reachable ?sys (uninitialised, [\<lparr>field_month = 4, field_day = 31\<rparr>])"
    by simp
  with e show ?thesis
    by (simp add: monthValue_def dayOfMonth_def MONTHS_def valid_MonthDay_def)
qed

end
